theory Spec2Isabelle
  imports Complex_Main "HOL-Library.AList"
begin

section \<open>Time utilities (src/utils/time\_utils.py)\<close>

text \<open>
  \<^verbatim>\<open>seconds_to_hms\<close>: Python's \<^verbatim>\<open>//\<close> and \<^verbatim>\<open>%\<close> on unbounded ints are floor division and
  its remainder, which is what \<open>div\<close> and \<open>mod\<close> on \<open>int\<close> are for a positive divisor.
\<close>

definition seconds_to_hms :: "int \<Rightarrow> int \<times> int \<times> int" where
  "seconds_to_hms seconds =
     (let hours = seconds div 3600;
          minutes = (seconds mod 3600) div 60;
          secs = seconds mod 60
      in (hours, minutes, secs))"

section \<open>Usage log (src/db/database.py)\<close>

text \<open>
  A value of \<^verbatim>\<open>datetime.now()\<close> is kept as the number of microseconds since the epoch
  (the resolution of a Python \<^verbatim>\<open>datetime\<close>). The table \<^verbatim>\<open>app_usage\<close> is a list of rows;
  its \<^verbatim>\<open>AUTOINCREMENT\<close> key is the counter \<open>last_id\<close>.
\<close>

type_synonym timestamp = int

record usage_row =
  row_id :: nat
  app_name :: string
  row_start_time :: timestamp
  row_end_time :: "timestamp option"
  duration_seconds :: "int option"

record database =
  app_usage :: "usage_row list"
  last_id :: nat

definition log_app_usage :: "database \<Rightarrow> string \<Rightarrow> timestamp \<Rightarrow> database \<times> nat" where
  "log_app_usage db name start =
     (let new_id = last_id db + 1
      in (db\<lparr>app_usage := app_usage db @
                [\<lparr>row_id = new_id, app_name = name, row_start_time = start,
                  row_end_time = None, duration_seconds = None\<rparr>],
             last_id := new_id\<rparr>, new_id))"

definition update_app_usage :: "database \<Rightarrow> nat \<Rightarrow> timestamp \<Rightarrow> int \<Rightarrow> database" where
  "update_app_usage db usage_id end_t dur =
     db\<lparr>app_usage :=
          map (\<lambda>r. if row_id r = usage_id
                    then r\<lparr>row_end_time := Some end_t, duration_seconds := Some dur\<rparr>
                    else r)
              (app_usage db)\<rparr>"

section \<open>Activity tracker (src/tracker/activity\_tracker.py)\<close>

record tracker =
  db_manager :: database
  current_app :: "string option"
  current_session_id :: "nat option"
  session_start_time :: "timestamp option"
  is_running :: bool
  idle_threshold :: real

text \<open>\<^verbatim>\<open>__init__\<close>: nothing tracked, not running, a threshold of 300 seconds.\<close>

definition init_tracker :: "database \<Rightarrow> tracker" where
  "init_tracker db =
     \<lparr>db_manager = db, current_app = None, current_session_id = None,
      session_start_time = None, is_running = False, idle_threshold = 300\<rparr>"

text \<open>
  Python truthiness, as the \<^verbatim>\<open>if x:\<close> tests of the source use it: \<^verbatim>\<open>None\<close> and the empty
  string are false, and so is the integer 0.
\<close>

definition truthy_str :: "string option \<Rightarrow> bool" where
  "truthy_str x = (case x of None \<Rightarrow> False | Some v \<Rightarrow> v \<noteq> [])"

definition truthy_id :: "nat option \<Rightarrow> bool" where
  "truthy_id x = (case x of None \<Rightarrow> False | Some n \<Rightarrow> n \<noteq> 0)"

text \<open>
  A call either returns or raises; since the polling loop catches every exception and goes
  on with the object as it then is, a raise carries the state reached when it happened.
\<close>

datatype 'a outcome = Returned 'a | Raised 'a

fun state_of :: "'a outcome \<Rightarrow> 'a" where
  "state_of (Returned s) = s"
| "state_of (Raised s) = s"


text \<open>\<^verbatim>\<open>is_system_idle\<close>: strictly longer than the threshold.\<close>

definition is_system_idle :: "tracker \<Rightarrow> real \<Rightarrow> bool" where
  "is_system_idle t idle_time = (idle_time > idle_threshold t)"

subsection \<open>\<^verbatim>\<open>normalize_app_name\<close>\<close>

text \<open>\<^verbatim>\<open>s.replace(sub, '')\<close>: every occurrence of \<open>sub\<close>, left to right, is deleted.\<close>

function replace_del :: "string \<Rightarrow> string \<Rightarrow> string" where
  "replace_del sub [] = []"
| "replace_del sub (c # cs) =
     (if sub \<noteq> [] \<and> take (length sub) (c # cs) = sub
      then replace_del sub (drop (length sub) (c # cs))
      else c # replace_del sub cs)"
  by pat_completeness auto
termination
  by (relation "measure (\<lambda>(sub, s). length s)") (auto simp: neq_Nil_conv)

definition endswith :: "string \<Rightarrow> string \<Rightarrow> bool" where
  "endswith s suffix =
     (length suffix \<le> length s \<and> drop (length s - length suffix) s = suffix)"

definition common_suffixes :: "string list" where
  "common_suffixes =
     ['' - Google Chrome'', '' - Mozilla Firefox'', '' - Microsoft Edge'',
      '' - Visual Studio Code'', '' - Notepad++'']"

text \<open>The loop over \<^verbatim>\<open>common_suffixes\<close>: the first suffix that matches is cut off.\<close>

fun strip_suffix :: "string list \<Rightarrow> string \<Rightarrow> string" where
  "strip_suffix [] clean_title = clean_title"
| "strip_suffix (suffix # rest) clean_title =
     (if endswith clean_title suffix
      then take (length clean_title - length suffix) clean_title
      else strip_suffix rest clean_title)"

definition normalize_app_name :: "string \<Rightarrow> string \<Rightarrow> string" where
  "normalize_app_name window_title process_name =
     (if window_title = [] \<and> process_name = [] then ''Unknown''
      else
        let app_name = (if process_name \<noteq> [] then replace_del ''.exe'' process_name
                        else ''Unknown'')
        in if window_title \<noteq> [] then
             let stripped = strip_suffix common_suffixes window_title;
                 clean_title = (if length stripped > 50 then take 47 stripped @ ''...''
                                else stripped)
             in if clean_title \<noteq> app_name
                then app_name @ '' ('' @ clean_title @ '')''
                else app_name
           else app_name)"

subsection \<open>Sessions\<close>

text \<open>
  \<^verbatim>\<open>int((end_time - start).total_seconds())\<close>: the difference in seconds, truncated towards
  zero.
\<close>

definition duration_between :: "timestamp \<Rightarrow> timestamp \<Rightarrow> int" where
  "duration_between start end_t =
     (let d = end_t - start
      in if 0 \<le> d then d div 1000000 else - ((- d) div 1000000))"

text \<open>
  \<^verbatim>\<open>start_session\<close>. \<open>now\<close> is the clock read by the call, \<open>insert_raises\<close> says whether
  \<^verbatim>\<open>log_app_usage\<close> raises (an sqlite error): then the two assignments before it have
  happened and the session id keeps its old value.
\<close>

definition start_session :: "tracker \<Rightarrow> string \<Rightarrow> timestamp \<Rightarrow> bool \<Rightarrow> tracker outcome" where
  "start_session t name now insert_raises =
     (let t1 = t\<lparr>current_app := Some name, session_start_time := Some now\<rparr>
      in if insert_raises then Raised t1
         else let (db', new_id) = log_app_usage (db_manager t1) name now
              in Returned (t1\<lparr>current_session_id := Some new_id, db_manager := db'\<rparr>))"

text \<open>
  \<^verbatim>\<open>end_session\<close>. \<open>update_raises\<close> says whether \<^verbatim>\<open>update_app_usage\<close> raises; when it
  does, the three fields are not cleared.
\<close>

definition clear_session :: "tracker \<Rightarrow> tracker" where
  "clear_session t =
     t\<lparr>current_app := None, current_session_id := None, session_start_time := None\<rparr>"

definition end_session :: "tracker \<Rightarrow> timestamp \<Rightarrow> bool \<Rightarrow> tracker outcome" where
  "end_session t now update_raises =
     (if truthy_id (current_session_id t) \<and> session_start_time t \<noteq> None then
        let end_time = now;
            duration = duration_between (the (session_start_time t)) end_time
        in if duration \<ge> 1 then
             if update_raises then Raised t
             else Returned (clear_session (t\<lparr>db_manager :=
                    update_app_usage (db_manager t) (the (current_session_id t))
                      end_time duration\<rparr>))
           else Returned (clear_session t)
      else Returned (clear_session t))"

subsection \<open>The polling loop\<close>

text \<open>
  What one iteration of the loop of \<^verbatim>\<open>track_activity\<close> reads from outside: the idle time in
  seconds, the pair returned by \<^verbatim>\<open>get_active_window_info\<close>, the clock as \<^verbatim>\<open>end_session\<close> and
  then \<^verbatim>\<open>start_session\<close> read it, and whether the two database calls raise.
\<close>

record observation =
  idle_time :: real
  window_title :: "string option"
  process_name :: "string option"
  now_end :: timestamp
  now_start :: timestamp
  update_raises :: bool
  insert_raises :: bool

text \<open>
  One iteration of the \<^verbatim>\<open>while self.is_running\<close> body, the sleeps left out. The
  \<^verbatim>\<open>try/except\<close> around the body turns every raise into the state reached so far.
\<close>

definition track_activity_step :: "tracker \<Rightarrow> observation \<Rightarrow> tracker" where
  "track_activity_step t obs =
     (if is_system_idle t (idle_time obs) then
        (if truthy_str (current_app t)
         then state_of (end_session t (now_end obs) (update_raises obs))
         else t)
      else if truthy_str (window_title obs) \<and> truthy_str (process_name obs) then
        let name = normalize_app_name (the (window_title obs)) (the (process_name obs))
        in if Some name \<noteq> current_app t then
             (if truthy_str (current_app t) then
                (case end_session t (now_end obs) (update_raises obs) of
                   Raised t' \<Rightarrow> t'
                 | Returned t' \<Rightarrow>
                     state_of (start_session t' name (now_start obs) (insert_raises obs)))
              else state_of (start_session t name (now_start obs) (insert_raises obs)))
           else t
      else
        (if truthy_str (current_app t)
         then state_of (end_session t (now_end obs) (update_raises obs))
         else t))"

text \<open>
  \<^verbatim>\<open>start_tracking\<close>, \<^verbatim>\<open>stop_tracking\<close> and the loop as a sequence of events: a poll only
  happens while \<^verbatim>\<open>is_running\<close> holds. \<^verbatim>\<open>stop_tracking\<close> has no \<^verbatim>\<open>try\<close>: when the update
  raises, the flag is already cleared and the session is kept.
\<close>

definition start_tracking :: "tracker \<Rightarrow> tracker" where
  "start_tracking t = (if \<not> is_running t then t\<lparr>is_running := True\<rparr> else t)"

definition stop_tracking :: "tracker \<Rightarrow> timestamp \<Rightarrow> bool \<Rightarrow> tracker outcome" where
  "stop_tracking t now upd_raises =
     (if is_running t then
        let t1 = t\<lparr>is_running := False\<rparr>
        in if truthy_str (current_app t1) then end_session t1 now upd_raises
           else Returned t1
      else Returned t)"

datatype tracker_event =
  StartTracking
| StopTracking timestamp bool
| Poll observation

fun tracker_step :: "tracker \<Rightarrow> tracker_event \<Rightarrow> tracker" where
  "tracker_step t StartTracking = start_tracking t"
| "tracker_step t (StopTracking now upd_raises) = state_of (stop_tracking t now upd_raises)"
| "tracker_step t (Poll obs) = (if is_running t then track_activity_step t obs else t)"

definition run_tracker :: "tracker \<Rightarrow> tracker_event list \<Rightarrow> tracker" where
  "run_tracker t evs = foldl tracker_step t evs"

subsection \<open>Concrete inputs\<close>

definition empty_db :: database where
  "empty_db = \<lparr>app_usage = [], last_id = 0\<rparr>"

text \<open>A running tracker with the session of \<open>''word (Doc)''\<close> open since time 0, as row 1.\<close>

definition tracking_word :: tracker where
  "tracking_word =
     \<lparr>db_manager = \<lparr>app_usage = [\<lparr>row_id = 1, app_name = ''word (Doc)'', row_start_time = 0,
                                       row_end_time = None, duration_seconds = None\<rparr>],
                     last_id = 1\<rparr>,
      current_app = Some ''word (Doc)'', current_session_id = Some 1,
      session_start_time = Some 0, is_running = True, idle_threshold = 300\<rparr>"

text \<open>A poll, \<open>secs\<close> seconds after time 0, that sees the given idle time and window.\<close>

definition poll_at :: "int \<Rightarrow> real \<Rightarrow> string \<Rightarrow> string \<Rightarrow> observation" where
  "poll_at secs idle title process =
     \<lparr>idle_time = idle, window_title = Some title, process_name = Some process,
      now_end = secs * 1000000, now_start = secs * 1000000,
      update_raises = False, insert_raises = False\<rparr>"

section \<open>Reminder scheduler (src/tracker/scheduler.py)\<close>

subsection \<open>Dates and times of the standard library\<close>

text \<open>
  A \<^verbatim>\<open>datetime.time\<close> and a \<^verbatim>\<open>datetime.datetime\<close>, with the fields Python gives them; \<open>tod\<close>
  is what \<^verbatim>\<open>.time()\<close> returns. \<open>utcoffset\<close> is the UTC offset in seconds of an aware value
  (\<^verbatim>\<open>fromisoformat\<close> returns one for a string such as \<^verbatim>\<open>09:00+01:00\<close>) and \<open>None\<close> for a naive
  one; \<^verbatim>\<open>datetime.now()\<close> is naive.
\<close>

record dt_time =
  hour :: int
  minute :: int
  second :: int
  microsecond :: int
  utcoffset :: "int option"

record datetime =
  year :: int
  month :: int
  day :: int
  tod :: dt_time

text \<open>The comparison of the fields, in order.\<close>

definition naive_le :: "dt_time \<Rightarrow> dt_time \<Rightarrow> bool" where
  "naive_le a b =
     (hour a < hour b \<or> (hour a = hour b \<and>
       (minute a < minute b \<or> (minute a = minute b \<and>
         (second a < second b \<or> (second a = second b \<and>
           microsecond a \<le> microsecond b))))))"

definition naive_datetime_le :: "datetime \<Rightarrow> datetime \<Rightarrow> bool" where
  "naive_datetime_le a b =
     (year a < year b \<or> (year a = year b \<and>
       (month a < month b \<or> (month a = month b \<and>
         (day a < day b \<or> (day a = day b \<and> naive_le (tod a) (tod b)))))))"

definition is_leap :: "int \<Rightarrow> bool" where
  "is_leap y = (y mod 4 = 0 \<and> (y mod 100 \<noteq> 0 \<or> y mod 400 = 0))"

definition days_in_month :: "int \<Rightarrow> int \<Rightarrow> int" where
  "days_in_month y m =
     (if m = 2 then (if is_leap y then 29 else 28)
      else if m = 4 \<or> m = 6 \<or> m = 9 \<or> m = 11 then 30
      else 31)"

definition days_before_year :: "int \<Rightarrow> int" where
  "days_before_year y =
     (let y1 = y - 1 in y1 * 365 + y1 div 4 - y1 div 100 + y1 div 400)"

definition days_before_month :: "int \<Rightarrow> int \<Rightarrow> int" where
  "days_before_month y m = (\<Sum>k \<leftarrow> [1..<nat m]. days_in_month y (int k))"

text \<open>\<^verbatim>\<open>toordinal\<close>: the day number, 1 for 1 January of year 1.\<close>

definition toordinal :: "datetime \<Rightarrow> int" where
  "toordinal d = days_before_year (year d) + days_before_month (year d) (month d) + day d"

text \<open>\<^verbatim>\<open>weekday\<close>: 0 is Monday, 6 is Sunday.\<close>

definition weekday :: "datetime \<Rightarrow> int" where
  "weekday d = (toordinal d + 6) mod 7"

definition micros_of :: "dt_time \<Rightarrow> int" where
  "micros_of t = ((hour t * 60 + minute t) * 60 + second t) * 1000000 + microsecond t"

text \<open>The microseconds from the start of day 0 to the instant, in UTC when the value is aware.\<close>

definition utc_micros :: "datetime \<Rightarrow> int" where
  "utc_micros d =
     toordinal d * 86400000000 + micros_of (tod d)
       - (case utcoffset (tod d) of None \<Rightarrow> 0 | Some off \<Rightarrow> off * 1000000)"

text \<open>
  \<^verbatim>\<open>a <= b\<close> on times: the fields are compared when both have the same offset (or both have
  none); a naive and an aware time cannot be compared (\<^verbatim>\<open>TypeError\<close>, here \<open>None\<close>); two
  aware times of different offsets are compared after the offset, in whole minutes, is
  subtracted.
\<close>

definition time_le :: "dt_time \<Rightarrow> dt_time \<Rightarrow> bool option" where
  "time_le a b =
     (if utcoffset a = utcoffset b then Some (naive_le a b)
      else case (utcoffset a, utcoffset b) of
             (Some myoff, Some otoff) \<Rightarrow>
               (let myhhmm = hour a * 60 + minute a - myoff div 60;
                    othhmm = hour b * 60 + minute b - otoff div 60
                in Some (myhhmm < othhmm \<or> (myhhmm = othhmm \<and>
                     (second a < second b \<or> (second a = second b \<and>
                        microsecond a \<le> microsecond b)))))
           | _ \<Rightarrow> None)"

text \<open>\<^verbatim>\<open>a <= b\<close> on datetimes, likewise; two aware ones are compared as instants.\<close>

definition datetime_le :: "datetime \<Rightarrow> datetime \<Rightarrow> bool option" where
  "datetime_le a b =
     (if utcoffset (tod a) = utcoffset (tod b) then Some (naive_datetime_le a b)
      else case (utcoffset (tod a), utcoffset (tod b)) of
             (Some myoff, Some otoff) \<Rightarrow> Some (utc_micros a \<le> utc_micros b)
           | _ \<Rightarrow> None)"

text \<open>\<^verbatim>\<open>datetime.combine(now.date(), t)\<close>: the date of the one, the time and offset of the other.\<close>

definition combine :: "datetime \<Rightarrow> dt_time \<Rightarrow> datetime" where
  "combine d t = d\<lparr>tod := t\<rparr>"

text \<open>\<^verbatim>\<open>d.replace(day=n)\<close> raises \<^verbatim>\<open>ValueError\<close> unless the month has a day \<open>n\<close>.\<close>

definition replace_day :: "datetime \<Rightarrow> int \<Rightarrow> datetime option" where
  "replace_day d n =
     (if 1 \<le> n \<and> n \<le> days_in_month (year d) (month d) then Some (d\<lparr>day := n\<rparr>)
      else None)"

text \<open>
  \<^verbatim>\<open>(a - b).total_seconds()\<close>, for two values that can be compared (the subtraction of a
  naive and an aware datetime raises as their comparison does, and the code compares first).
\<close>

definition seconds_between :: "datetime \<Rightarrow> datetime \<Rightarrow> real" where
  "seconds_between a b = of_int (utc_micros a - utc_micros b) / 1000000"

subsection \<open>Settings\<close>

text \<open>
  The settings dictionary, one optional entry per key the scheduler reads (\<open>None\<close>: the key
  is absent and \<^verbatim>\<open>.get\<close> returns its default). Intervals are minutes.
\<close>

record settings_dict =
  break_interval :: "int option"
  hydration_interval :: "int option"
  inspiration_interval :: "int option"
  daily_summary_time :: "string option"
  work_start_time :: "string option"
  work_end_time :: "string option"
  notifications_enabled :: "bool option"
  work_days_only :: "bool option"

definition get_or :: "'a option \<Rightarrow> 'a \<Rightarrow> 'a" where
  "get_or entry dflt = (case entry of None \<Rightarrow> dflt | Some v \<Rightarrow> v)"

text \<open>
  \<^verbatim>\<open>time.fromisoformat\<close> belongs to the standard library. Every function below that calls it
  takes it as its first argument \<open>fromisoformat\<close>, where \<open>None\<close> stands for the
  \<^verbatim>\<open>ValueError\<close> on a malformed string. In \<^verbatim>\<open>is_work_hours\<close> the \<^verbatim>\<open>except\<close> also catches the
  \<^verbatim>\<open>TypeError\<close> of a comparison; the chained comparison stops at its first false half. The clock is an argument too: \<open>now\<close> is the value of
  \<^verbatim>\<open>datetime.now()\<close> during the call (one instant per call).
\<close>

type_synonym time_parser = "string \<Rightarrow> dt_time option"

definition is_work_hours :: "time_parser \<Rightarrow> settings_dict \<Rightarrow> datetime \<Rightarrow> bool" where
  "is_work_hours fromisoformat st now =
     (let current_time = tod now
      in case fromisoformat (get_or (work_start_time st) ''09:00'') of
           None \<Rightarrow> True
         | Some work_start \<Rightarrow>
             (case fromisoformat (get_or (work_end_time st) ''18:00'') of
                None \<Rightarrow> True
              | Some work_end \<Rightarrow>
                  (case time_le work_start current_time of
                     None \<Rightarrow> True
                   | Some False \<Rightarrow> False
                   | Some True \<Rightarrow>
                       (case time_le current_time work_end of
                          None \<Rightarrow> True
                        | Some le_end \<Rightarrow> le_end))))"

definition is_work_day :: "settings_dict \<Rightarrow> datetime \<Rightarrow> bool" where
  "is_work_day st now =
     (if \<not> get_or (work_days_only st) True then True else weekday now < 5)"

definition should_send_reminder :: "time_parser \<Rightarrow> settings_dict \<Rightarrow> datetime \<Rightarrow> bool" where
  "should_send_reminder fromisoformat st now =
     (if \<not> get_or (notifications_enabled st) True then False
      else if \<not> is_work_day st now then False
      else if \<not> is_work_hours fromisoformat st now then False
      else True)"

subsection \<open>Timers\<close>

text \<open>
  The reminder kinds: the keys of \<^verbatim>\<open>self.timers\<close>, each with its own callback. A
  \<^verbatim>\<open>threading.Timer\<close> waits for its interval and then runs the callback, unless it was
  cancelled while waiting; it is alive while it waits and while the callback runs.
\<close>

datatype kind = Break | Hydration | Inspiration | DailySummary | EyeStrain | Posture | MoodCheckin

datatype timer_status = Waiting | InFlight | Finished | Cancelled

record timer =
  callback :: kind
  interval :: real
  status :: timer_status

definition is_alive :: "timer \<Rightarrow> bool" where
  "is_alive tm = (status tm = Waiting \<or> status tm = InFlight)"

text \<open>\<^verbatim>\<open>Timer.cancel\<close> only stops a timer that is still waiting.\<close>

definition cancel :: "timer \<Rightarrow> timer" where
  "cancel tm = (if status tm = Waiting then tm\<lparr>status := Cancelled\<rparr> else tm)"

text \<open>The methods of the notifier that the callbacks call.\<close>

datatype notifier_call =
  SendBreakReminder | ShowBreakReminder
| SendHydrationReminder | ShowHydrationReminder
| SendInspirationReminder
| SendDailySummary
| ShowEyeStrainReminder | ShowPostureReminder | ShowMoodCheckin

text \<open>
  The scheduler object. \<open>threads\<close> holds every \<^verbatim>\<open>Timer\<close> created so far, a timer's identity
  being its position; \<open>timers\<close> is the dictionary \<^verbatim>\<open>self.timers\<close>, in insertion order, from a
  kind to the timer last armed for it; \<open>calls\<close> lists the calls made to the notifier.
\<close>

record scheduler =
  settings :: settings_dict
  is_modal_notifier :: bool
  timers :: "(kind \<times> nat) list"
  sched_is_running :: bool
  sched_start_time :: "datetime option"
  threads :: "timer list"
  calls :: "notifier_call list"

text \<open>\<^verbatim>\<open>__init__\<close>, with the settings that \<^verbatim>\<open>load_settings\<close> returned.\<close>

definition init_scheduler :: "settings_dict \<Rightarrow> bool \<Rightarrow> scheduler" where
  "init_scheduler st modal =
     \<lparr>settings = st, is_modal_notifier = modal, timers = [], sched_is_running = False,
      sched_start_time = None, threads = [], calls = []\<rparr>"

text \<open>
  The four lines that end every \<^verbatim>\<open>schedule_...\<close> method: create a timer for the callback,
  start it, and store it in \<^verbatim>\<open>self.timers\<close> under the kind's key.
\<close>

definition arm :: "kind \<Rightarrow> real \<Rightarrow> scheduler \<Rightarrow> scheduler" where
  "arm k secs s =
     s\<lparr>threads := threads s @ [\<lparr>callback = k, interval = secs, status = Waiting\<rparr>],
       timers := AList.update k (length (threads s)) (timers s)\<rparr>"

definition schedule_break_reminder :: "scheduler \<Rightarrow> scheduler" where
  "schedule_break_reminder s =
     arm Break (of_int (get_or (break_interval (settings s)) 45 * 60)) s"

definition schedule_hydration_reminder :: "scheduler \<Rightarrow> scheduler" where
  "schedule_hydration_reminder s =
     arm Hydration (of_int (get_or (hydration_interval (settings s)) 120 * 60)) s"

definition schedule_inspiration_reminder :: "scheduler \<Rightarrow> scheduler" where
  "schedule_inspiration_reminder s =
     arm Inspiration (of_int (get_or (inspiration_interval (settings s)) 180 * 60)) s"

definition schedule_eye_strain_reminder :: "scheduler \<Rightarrow> scheduler" where
  "schedule_eye_strain_reminder s = arm EyeStrain (20 * 60) s"

definition schedule_posture_reminder :: "scheduler \<Rightarrow> scheduler" where
  "schedule_posture_reminder s = arm Posture (60 * 60) s"

definition schedule_mood_checkin :: "scheduler \<Rightarrow> scheduler" where
  "schedule_mood_checkin s = arm MoodCheckin (4 * 60 * 60) s"

text \<open>
  \<^verbatim>\<open>schedule_daily_summary\<close>, below its callback. A \<^verbatim>\<open>ValueError\<close> of \<^verbatim>\<open>fromisoformat\<close> or of
  \<^verbatim>\<open>replace\<close>, and the \<^verbatim>\<open>TypeError\<close> of comparing an aware target with the naive clock, are
  caught by the \<^verbatim>\<open>except\<close>, which prints and arms nothing.
\<close>

definition schedule_daily_summary :: "time_parser \<Rightarrow> scheduler \<Rightarrow> datetime \<Rightarrow> scheduler" where
  "schedule_daily_summary fromisoformat s now =
     (case fromisoformat (get_or (daily_summary_time (settings s)) ''17:00'') of
        None \<Rightarrow> s
      | Some summary_time \<Rightarrow>
          let target_datetime = combine now summary_time
          in case datetime_le target_datetime now of
               None \<Rightarrow> s
             | Some passed \<Rightarrow>
                 (case (if passed
                        then replace_day target_datetime (day target_datetime + 1)
                        else Some target_datetime) of
                    None \<Rightarrow> s
                  | Some target \<Rightarrow> arm DailySummary (seconds_between target now) s))"

text \<open>The method a reminder callback calls on the notifier when the reminder may be sent.\<close>

fun present :: "kind \<Rightarrow> bool \<Rightarrow> notifier_call" where
  "present Break modal = (if modal then ShowBreakReminder else SendBreakReminder)"
| "present Hydration modal = (if modal then ShowHydrationReminder else SendHydrationReminder)"
| "present Inspiration modal = SendInspirationReminder"
| "present DailySummary modal = SendDailySummary"
| "present EyeStrain modal = ShowEyeStrainReminder"
| "present Posture modal = ShowPostureReminder"
| "present MoodCheckin modal = ShowMoodCheckin"

text \<open>The \<^verbatim>\<open>schedule_...\<close> call that ends the callback of an interval kind.\<close>

fun reschedule :: "kind \<Rightarrow> scheduler \<Rightarrow> scheduler" where
  "reschedule Break s = schedule_break_reminder s"
| "reschedule Hydration s = schedule_hydration_reminder s"
| "reschedule Inspiration s = schedule_inspiration_reminder s"
| "reschedule EyeStrain s = schedule_eye_strain_reminder s"
| "reschedule Posture s = schedule_posture_reminder s"
| "reschedule MoodCheckin s = schedule_mood_checkin s"
| "reschedule DailySummary s = s"

text \<open>
  The callback \<^verbatim>\<open>send_reminder\<close> of the six interval kinds. The call to the notifier is not
  inside a \<^verbatim>\<open>try\<close>: when it raises (\<open>present_raises\<close>), the exception leaves the callback
  before the \<^verbatim>\<open>schedule_...\<close> call.
\<close>

definition send_reminder ::
  "time_parser \<Rightarrow> kind \<Rightarrow> scheduler \<Rightarrow> datetime \<Rightarrow> bool \<Rightarrow> scheduler outcome" where
  "send_reminder fromisoformat k s now present_raises =
     (if should_send_reminder fromisoformat (settings s) now then
        let s1 = s\<lparr>calls := calls s @ [present k (is_modal_notifier s)]\<rparr>
        in if present_raises then Raised s1 else Returned (reschedule k s1)
      else Returned (reschedule k s))"

text \<open>
  The callback \<^verbatim>\<open>send_summary\<close> of the daily summary. Its body is inside a \<^verbatim>\<open>try\<close>: the
  database reads come first (\<open>db_raises\<close>: they raise, and the notifier is not reached), then
  the call to the notifier, whose exception is swallowed. There is no eligibility test.
\<close>

definition send_summary ::
  "time_parser \<Rightarrow> scheduler \<Rightarrow> datetime \<Rightarrow> bool \<Rightarrow> bool \<Rightarrow> scheduler outcome" where
  "send_summary fromisoformat s now db_raises present_raises =
     (let s1 = (if db_raises then s else s\<lparr>calls := calls s @ [SendDailySummary]\<rparr>)
      in Returned (schedule_daily_summary fromisoformat s1 now))"

definition run_callback ::
  "time_parser \<Rightarrow> kind \<Rightarrow> scheduler \<Rightarrow> datetime \<Rightarrow> bool \<Rightarrow> bool \<Rightarrow> scheduler outcome" where
  "run_callback fromisoformat k s now db_raises present_raises =
     (if k = DailySummary then send_summary fromisoformat s now db_raises present_raises
      else send_reminder fromisoformat k s now present_raises)"

subsection \<open>Starting and stopping\<close>

definition start_all_reminders :: "time_parser \<Rightarrow> scheduler \<Rightarrow> datetime \<Rightarrow> scheduler" where
  "start_all_reminders fromisoformat s now =
     (if sched_is_running s then s
      else
        let s1 = s\<lparr>sched_is_running := True, sched_start_time := Some now\<rparr>;
            s2 = schedule_break_reminder s1;
            s3 = schedule_hydration_reminder s2;
            s4 = schedule_inspiration_reminder s3;
            s5 = schedule_daily_summary fromisoformat s4 now
        in if is_modal_notifier s5
           then schedule_mood_checkin (schedule_posture_reminder
                  (schedule_eye_strain_reminder s5))
           else s5)"

text \<open>The loop of \<^verbatim>\<open>stop_all_reminders\<close> over the items of \<^verbatim>\<open>self.timers\<close>.\<close>

fun cancel_timers :: "(kind \<times> nat) list \<Rightarrow> timer list \<Rightarrow> timer list" where
  "cancel_timers [] ths = ths"
| "cancel_timers ((timer_name, tid) # rest) ths =
     cancel_timers rest
       (if tid < length ths \<and> is_alive (ths ! tid) then ths[tid := cancel (ths ! tid)]
        else ths)"

definition stop_all_reminders :: "scheduler \<Rightarrow> scheduler" where
  "stop_all_reminders s =
     (if \<not> sched_is_running s then s
      else s\<lparr>sched_is_running := False,
             threads := cancel_timers (timers s) (threads s),
             timers := []\<rparr>)"

subsection \<open>Timer threads running beside the caller\<close>

text \<open>
  What can happen to a scheduler, one event after the other: a call of \<^verbatim>\<open>start_all_reminders\<close>
  or \<^verbatim>\<open>stop_all_reminders\<close>; the interval of a waiting timer elapses and its callback begins
  (\<open>Elapse\<close>); a callback that has begun reaches its end (\<open>Complete\<close>, with the clock and the
  failures it meets). Between the two a notifier call may block, and other events happen.
\<close>

datatype sched_event =
  StartAll datetime
| StopAll
| Elapse nat
| Complete nat datetime bool bool

definition elapse :: "nat \<Rightarrow> scheduler \<Rightarrow> scheduler" where
  "elapse tid s =
     (if tid < length (threads s) \<and> status (threads s ! tid) = Waiting
      then s\<lparr>threads := (threads s)[tid := (threads s ! tid)\<lparr>status := InFlight\<rparr>]\<rparr>
      else s)"

definition finish_callback ::
  "time_parser \<Rightarrow> nat \<Rightarrow> datetime \<Rightarrow> bool \<Rightarrow> bool \<Rightarrow> scheduler \<Rightarrow> scheduler" where
  "finish_callback fromisoformat tid now db_raises present_raises s =
     (if tid < length (threads s) \<and> status (threads s ! tid) = InFlight then
        let s1 = state_of (run_callback fromisoformat (callback (threads s ! tid)) s now
                             db_raises present_raises)
        in s1\<lparr>threads := (threads s1)[tid := (threads s1 ! tid)\<lparr>status := Finished\<rparr>]\<rparr>
      else s)"

fun sched_step :: "time_parser \<Rightarrow> scheduler \<Rightarrow> sched_event \<Rightarrow> scheduler" where
  "sched_step p s (StartAll now) = start_all_reminders p s now"
| "sched_step p s StopAll = stop_all_reminders s"
| "sched_step p s (Elapse tid) = elapse tid s"
| "sched_step p s (Complete tid now db_raises present_raises) =
     finish_callback p tid now db_raises present_raises s"

definition run_scheduler :: "time_parser \<Rightarrow> scheduler \<Rightarrow> sched_event list \<Rightarrow> scheduler" where
  "run_scheduler p s evs = foldl (sched_step p) s evs"

text \<open>The timers of a kind that are waiting to fire.\<close>

definition pending :: "kind \<Rightarrow> scheduler \<Rightarrow> timer list" where
  "pending k s = filter (\<lambda>tm. callback tm = k \<and> status tm = Waiting) (threads s)"

text \<open>
  \<open>armed k secs s s'\<close>: going from \<open>s\<close> to \<open>s'\<close>, exactly one timer was created for the kind
  \<open>k\<close>; it waits for \<open>secs\<close> seconds and is the timer that \<^verbatim>\<open>self.timers\<close> holds for \<open>k\<close>.
\<close>

definition armed :: "kind \<Rightarrow> real \<Rightarrow> scheduler \<Rightarrow> scheduler \<Rightarrow> bool" where
  "armed k secs s s' =
     (case map_of (timers s') k of
        None \<Rightarrow> False
      | Some tid \<Rightarrow>
          length (threads s) \<le> tid \<and> tid < length (threads s') \<and>
          threads s' ! tid = \<lparr>callback = k, interval = secs, status = Waiting\<rparr> \<and>
          length (filter (\<lambda>tm. callback tm = k) (threads s'))
            = length (filter (\<lambda>tm. callback tm = k) (threads s)) + 1)"

subsection \<open>Concrete inputs of the scheduler\<close>

text \<open>
  For the evaluations at concrete inputs: a parser that reads the strings of the shape
  \<^verbatim>\<open>HH:MM\<close>, on which it agrees with \<^verbatim>\<open>time.fromisoformat\<close>, and rejects every other string.
\<close>

definition digit_of :: "char \<Rightarrow> int option" where
  "digit_of c =
     (let n = (of_char c :: nat) in if 48 \<le> n \<and> n \<le> 57 then Some (int n - 48) else None)"

definition hhmm :: time_parser where
  "hhmm str =
     (case str of
        [a, b, c, d, e] \<Rightarrow>
          (case (digit_of a, digit_of b, digit_of d, digit_of e) of
             (Some h1, Some h0, Some m1, Some m0) \<Rightarrow>
               if c = CHR '':'' \<and> 10 * h1 + h0 < 24 \<and> 10 * m1 + m0 < 60
               then Some \<lparr>hour = 10 * h1 + h0, minute = 10 * m1 + m0,
                          second = 0, microsecond = 0, utcoffset = None\<rparr>
               else None
           | _ \<Rightarrow> None)
      | _ \<Rightarrow> None)"

text \<open>The settings file as \<^verbatim>\<open>load_settings\<close> creates it.\<close>

definition default_settings :: settings_dict where
  "default_settings =
     \<lparr>break_interval = Some 45, hydration_interval = Some 120,
      inspiration_interval = Some 180, daily_summary_time = Some ''17:00'',
      work_start_time = Some ''09:00'', work_end_time = Some ''18:00'',
      notifications_enabled = Some True, work_days_only = Some True\<rparr>"

definition at_time :: "int \<Rightarrow> int \<Rightarrow> int \<Rightarrow> int \<Rightarrow> int \<Rightarrow> datetime" where
  "at_time y m d h mi =
     \<lparr>year = y, month = m, day = d,
      tod = \<lparr>hour = h, minute = mi, second = 0, microsecond = 0, utcoffset = None\<rparr>\<rparr>"

text \<open>
  The scheduler of the default settings and a notifier that is not modal, started on Tuesday
  2 January 2024 at 9:00.
\<close>

definition started :: scheduler where
  "started =
     start_all_reminders hhmm (init_scheduler default_settings False) (at_time 2024 1 2 9 0)"

section \<open>Properties\<close>

subsection \<open>Sessions of the activity tracker\<close>

lemma normalize_word_doc: "normalize_app_name ''Doc'' ''word.exe'' = ''word (Doc)''"
  by (simp add: normalize_app_name_def common_suffixes_def endswith_def)

lemma normalize_mail: "normalize_app_name ''Inbox'' ''mail.exe'' = ''mail (Inbox)''"
  by (simp add: normalize_app_name_def common_suffixes_def endswith_def)

lemma normalize_empty: "normalize_app_name '' - Google Chrome'' ''.exe'' = []"
  by (simp add: normalize_app_name_def common_suffixes_def endswith_def)

text \<open>
  C1, as stated, fails: a session that is opened at time 0 and closed half a second later
  has duration 0, and the usage log holds a row for it, the one that \<^verbatim>\<open>start_session\<close>
  inserted when the session was opened.
\<close>

theorem short_session_row_persisted:
  "duration_between 0 500000 < 1 \<and>
   app_usage (db_manager (state_of (end_session
       (state_of (start_session (init_tracker empty_db) ''word (Doc)'' 0 False))
       500000 False)))
   = [\<lparr>row_id = 1, app_name = ''word (Doc)'', row_start_time = 0,
       row_end_time = None, duration_seconds = None\<rparr>]"
  by (simp add: duration_between_def init_tracker_def empty_db_def start_session_def
      log_app_usage_def end_session_def truthy_id_def clear_session_def)

text \<open>
  C1, amended: for every session that is closed with a duration of less than 1 second,
  \<^verbatim>\<open>end_session\<close> returns without calling \<^verbatim>\<open>update_app_usage\<close> and only clears the open
  session: no end time and no duration are ever written for it, and the usage log stays as
  it was right after the row inserted by \<^verbatim>\<open>start_session\<close> when the session was opened.
\<close>

theorem short_session_never_updated:
  assumes "duration_between start now < 1"
  shows "end_session (state_of (start_session t name start False)) now upd
           = Returned (clear_session (state_of (start_session t name start False)))
         \<and> db_manager (state_of (end_session (state_of (start_session t name start False))
                                   now upd))
           = fst (log_app_usage (db_manager t) name start)"
  using assms
  by (simp add: start_session_def end_session_def log_app_usage_def truthy_id_def
      clear_session_def Let_def)

theorem short_session_never_updated_witness:
  "duration_between 0 500000 < 1 \<and>
   end_session (state_of (start_session (init_tracker empty_db) ''word (Doc)'' 0 False))
       500000 True
   = Returned (clear_session
       (state_of (start_session (init_tracker empty_db) ''word (Doc)'' 0 False)))"
  using short_session_never_updated [of 0 500000 "init_tracker empty_db" "''word (Doc)''" True]
  by (simp add: duration_between_def)

text \<open>
  A session with a non-empty name is closed before the next one is opened: when the poll
  sees another application and the database update does not raise, \<^verbatim>\<open>end_session\<close> has
  cleared the three fields by the time \<^verbatim>\<open>start_session\<close> is called.
\<close>

lemma named_session_closed_before_next:
  assumes "truthy_str (current_app t)"
    and "\<not> is_system_idle t (idle_time obs)"
    and "truthy_str (window_title obs)" and "truthy_str (process_name obs)"
    and "Some (normalize_app_name (the (window_title obs)) (the (process_name obs)))
           \<noteq> current_app t"
    and "\<not> update_raises obs"
  shows "\<exists>t'. end_session t (now_end obs) (update_raises obs) = Returned t' \<and>
           current_app t' = None \<and> current_session_id t' = None \<and>
           session_start_time t' = None \<and>
           track_activity_step t obs =
             state_of (start_session t'
               (normalize_app_name (the (window_title obs)) (the (process_name obs)))
               (now_start obs) (insert_raises obs))"
  using assms
  by (auto simp add: track_activity_step_def end_session_def clear_session_def Let_def)

text \<open>
  C2 at the input where the code breaks it. The first poll sees the window title
  \<open>'' - Google Chrome''\<close> of the process \<open>''.exe''\<close>, which \<^verbatim>\<open>normalize_app_name\<close> turns into
  the empty name; a session is opened for it (row 1). Ten seconds later the second poll sees
  another application: since the empty name is false in \<^verbatim>\<open>if self.current_app:\<close>,
  \<^verbatim>\<open>end_session\<close> is skipped and \<^verbatim>\<open>start_session\<close> overwrites the session that is still
  held. Row 1 never gets an end time, and two rows are open.
\<close>

theorem empty_name_session_never_closed:
  "normalize_app_name '' - Google Chrome'' ''.exe'' = [] \<and>
   run_tracker (init_tracker empty_db)
     [StartTracking,
      Poll (poll_at 0 0 '' - Google Chrome'' ''.exe''),
      Poll (poll_at 10 0 ''Doc'' ''word.exe'')]
   = \<lparr>db_manager =
        \<lparr>app_usage =
           [\<lparr>row_id = 1, app_name = [], row_start_time = 0,
             row_end_time = None, duration_seconds = None\<rparr>,
            \<lparr>row_id = 2, app_name = ''word (Doc)'', row_start_time = 10000000,
             row_end_time = None, duration_seconds = None\<rparr>],
         last_id = 2\<rparr>,
      current_app = Some ''word (Doc)'', current_session_id = Some 2,
      session_start_time = Some 10000000, is_running = True, idle_threshold = 300\<rparr>"
  by (simp add: run_tracker_def init_tracker_def empty_db_def poll_at_def start_tracking_def
      track_activity_step_def is_system_idle_def truthy_str_def normalize_empty
      normalize_word_doc start_session_def log_app_usage_def Let_def)

text \<open>
  C7, as stated, fails at the threshold itself: with \<open>''word (Doc)''\<close> open and an idle time
  of exactly 300 seconds, \<^verbatim>\<open>is_system_idle\<close> is false, and the poll that sees another window
  closes the session and opens a new one (row 2).
\<close>

theorem idle_at_threshold_opens_session:
  "idle_time (poll_at 10 300 ''Inbox'' ''mail.exe'') \<ge> idle_threshold tracking_word \<and>
   truthy_str (current_app tracking_word) \<and>
   track_activity_step tracking_word (poll_at 10 300 ''Inbox'' ''mail.exe'')
   = \<lparr>db_manager =
        \<lparr>app_usage =
           [\<lparr>row_id = 1, app_name = ''word (Doc)'', row_start_time = 0,
             row_end_time = Some 10000000, duration_seconds = Some 10\<rparr>,
            \<lparr>row_id = 2, app_name = ''mail (Inbox)'', row_start_time = 10000000,
             row_end_time = None, duration_seconds = None\<rparr>],
         last_id = 2\<rparr>,
      current_app = Some ''mail (Inbox)'', current_session_id = Some 2,
      session_start_time = Some 10000000, is_running = True, idle_threshold = 300\<rparr>"
  by (simp add: tracking_word_def poll_at_def track_activity_step_def is_system_idle_def
      truthy_str_def truthy_id_def normalize_mail end_session_def clear_session_def
      duration_between_def update_app_usage_def start_session_def log_app_usage_def Let_def)

text \<open>
  C7, amended: for every poll in which the observed idle time is strictly greater than the
  idle threshold and a session with a non-empty application name is open, the poll closes
  that session and opens no new one, whatever window is observable. Closing: when the
  session has lasted at least 1 second (and its id and start time are held), the row of
  the session's id gets the poll's clock as end time and the whole seconds since the
  session's start as duration, every other row is left as it is, and no row is inserted;
  the open-session state is then cleared. A session shorter than 1 second is cleared
  without a write (C1). Only when the database update raises does the poll leave the
  tracker as it was.
\<close>

theorem idle_poll_ends_session:
  assumes "idle_time obs > idle_threshold t" and "truthy_str (current_app t)"
  shows "(let t' = track_activity_step t obs;
              rows = app_usage (db_manager t);
              duration = duration_between (the (session_start_time t)) (now_end obs);
              held = (truthy_id (current_session_id t) \<and> session_start_time t \<noteq> None \<and>
                      1 \<le> duration)
          in length (app_usage (db_manager t')) = length rows \<and>
             last_id (db_manager t') = last_id (db_manager t) \<and>
             (\<forall>i < length rows.
                app_usage (db_manager t') ! i =
                  (if held \<and> \<not> update_raises obs \<and>
                      row_id (rows ! i) = the (current_session_id t)
                   then (rows ! i)\<lparr>row_end_time := Some (now_end obs),
                                    duration_seconds := Some duration\<rparr>
                   else rows ! i)) \<and>
             (if held \<and> update_raises obs then t' = t
              else current_app t' = None \<and> current_session_id t' = None \<and>
                   session_start_time t' = None))"
proof -
  have step: "track_activity_step t obs
      = state_of (end_session t (now_end obs) (update_raises obs))"
    using assms by (simp add: track_activity_step_def is_system_idle_def)
  show ?thesis
    unfolding step
    by (auto simp add: end_session_def clear_session_def update_app_usage_def Let_def)
qed

theorem idle_poll_ends_session_witness:
  "idle_time (poll_at 10 301 ''Inbox'' ''mail.exe'') > idle_threshold tracking_word \<and>
   truthy_str (current_app tracking_word) \<and>
   app_usage (db_manager
     (track_activity_step tracking_word (poll_at 10 301 ''Inbox'' ''mail.exe'')))
     = [\<lparr>row_id = 1, app_name = ''word (Doc)'', row_start_time = 0,
         row_end_time = Some 10000000, duration_seconds = Some 10\<rparr>] \<and>
   last_id (db_manager
     (track_activity_step tracking_word (poll_at 10 301 ''Inbox'' ''mail.exe''))) = 1 \<and>
   current_app (track_activity_step tracking_word (poll_at 10 301 ''Inbox'' ''mail.exe''))
     = None \<and>
   current_session_id (track_activity_step tracking_word (poll_at 10 301 ''Inbox'' ''mail.exe''))
     = None"
proof -
  let ?obs = "poll_at 10 301 ''Inbox'' ''mail.exe''"
  let ?t' = "track_activity_step tracking_word ?obs"
  have idle: "idle_time ?obs > idle_threshold tracking_word"
    by (simp add: tracking_word_def poll_at_def)
  have held: "truthy_str (current_app tracking_word)"
    by (simp add: tracking_word_def truthy_str_def)
  have ok: "\<not> update_raises ?obs" and now: "now_end ?obs = 10000000"
    by (simp_all add: poll_at_def)
  have dur: "duration_between (the (session_start_time tracking_word)) 10000000 = 10"
    by (simp add: tracking_word_def duration_between_def)
  have sid: "truthy_id (current_session_id tracking_word)"
    "session_start_time tracking_word \<noteq> None"
    "the (current_session_id tracking_word) = 1"
    by (simp_all add: tracking_word_def truthy_id_def)
  have rows: "app_usage (db_manager tracking_word)
      = [\<lparr>row_id = 1, app_name = ''word (Doc)'', row_start_time = 0,
          row_end_time = None, duration_seconds = None\<rparr>]"
    and last: "last_id (db_manager tracking_word) = 1"
    by (simp_all add: tracking_word_def)
  note r = idle_poll_ends_session [OF idle held, unfolded Let_def now dur rows]
  from r have len: "length (app_usage (db_manager ?t')) = 1"
    by simp
  from r sid ok have row: "app_usage (db_manager ?t') ! 0
      = \<lparr>row_id = 1, app_name = ''word (Doc)'', row_start_time = 0,
         row_end_time = Some 10000000, duration_seconds = Some 10\<rparr>"
    by simp
  from len row have db: "app_usage (db_manager ?t')
      = [\<lparr>row_id = 1, app_name = ''word (Doc)'', row_start_time = 0,
          row_end_time = Some 10000000, duration_seconds = Some 10\<rparr>]"
    by (cases "app_usage (db_manager ?t')") simp_all
  from r last have lid: "last_id (db_manager ?t') = 1"
    by simp
  from r ok have cleared: "current_app ?t' = None \<and> current_session_id ?t' = None"
    by simp
  from idle held db lid cleared show ?thesis by blast
qed

subsection \<open>Auxiliary facts about timers and eligibility\<close>

lemma arm_fields [simp]:
  "threads (arm k v s) = threads s @ [\<lparr>callback = k, interval = v, status = Waiting\<rparr>]"
  "timers (arm k v s) = AList.update k (length (threads s)) (timers s)"
  "settings (arm k v s) = settings s"
  "is_modal_notifier (arm k v s) = is_modal_notifier s"
  "sched_is_running (arm k v s) = sched_is_running s"
  "sched_start_time (arm k v s) = sched_start_time s"
  "calls (arm k v s) = calls s"
  by (simp_all add: arm_def)

lemma armed_arm:
  assumes "length (threads s0) \<le> length (threads s)"
    and "filter (\<lambda>tm. callback tm = k) (threads s) = filter (\<lambda>tm. callback tm = k) (threads s0)"
  shows "armed k v s0 (arm k v s)"
  using assms by (simp add: armed_def update_conv')

lemma armed_arm_other:
  assumes "armed k v s0 s" and "k' \<noteq> k"
  shows "armed k v s0 (arm k' v' s)"
  using assms by (auto simp add: armed_def update_conv' nth_append split: option.splits)

lemma threads_arm_mono: "length (threads s) \<le> length (threads (arm k v s))"
  by simp

lemma filter_arm_other:
  "k' \<noteq> k \<Longrightarrow> filter (\<lambda>tm. callback tm = k) (threads (arm k' v s)) = filter (\<lambda>tm. callback tm = k) (threads s)"
  by simp

lemma daily_cases:
  "schedule_daily_summary p s now = s \<or> (\<exists>v. schedule_daily_summary p s now = arm DailySummary v s)"
  by (auto simp add: schedule_daily_summary_def Let_def split: option.splits)

lemma armed_daily:
  assumes "armed k v s0 s" and "k \<noteq> DailySummary"
  shows "armed k v s0 (schedule_daily_summary p s now)"
  using daily_cases [of p s now] assms armed_arm_other by metis

lemma armed_refl_fields:
  "armed k v (s\<lparr>sched_is_running := a, sched_start_time := b\<rparr>) s' = armed k v s s'"
  by (simp add: armed_def cong: option.case_cong)

lemma daily_unparsed:
  assumes "p (get_or (daily_summary_time (settings s)) ''17:00'') = None"
  shows "schedule_daily_summary p s now = s"
  using assms by (simp add: schedule_daily_summary_def)

lemma daily_incomparable:
  assumes "p (get_or (daily_summary_time (settings s)) ''17:00'') = Some t"
    and "datetime_le (combine now t) now = None"
  shows "schedule_daily_summary p s now = s"
  using assms by (simp add: schedule_daily_summary_def Let_def)

lemma daily_today:
  assumes "p (get_or (daily_summary_time (settings s)) ''17:00'') = Some t"
    and "datetime_le (combine now t) now = Some False"
  shows "schedule_daily_summary p s now = arm DailySummary (seconds_between (combine now t) now) s"
  using assms by (simp add: schedule_daily_summary_def Let_def)

lemma daily_tomorrow:
  assumes "p (get_or (daily_summary_time (settings s)) ''17:00'') = Some t"
    and "datetime_le (combine now t) now = Some True"
    and "0 \<le> day now" and "day now + 1 \<le> days_in_month (year now) (month now)"
  shows "schedule_daily_summary p s now
     = arm DailySummary (seconds_between ((combine now t)\<lparr>day := day now + 1\<rparr>) now) s"
  using assms by (simp add: schedule_daily_summary_def Let_def replace_day_def combine_def)

text \<open>
  With the naive clock of \<^verbatim>\<open>datetime.now()\<close>, the target can be compared exactly when the
  parsed time carries no offset, and the comparison is then that of the times of day.
\<close>

lemma datetime_le_naive_clock:
  assumes "utcoffset (tod now) = None"
  shows "datetime_le (combine now t) now
     = (if utcoffset t = None then Some (naive_le t (tod now)) else None)"
  using assms
  by (auto simp add: datetime_le_def naive_datetime_le_def combine_def split: option.splits)

lemma aware_summary_time_arms_nothing:
  assumes "p (get_or (daily_summary_time (settings s)) ''17:00'') = Some t"
    and "utcoffset t \<noteq> None" and "utcoffset (tod now) = None"
  shows "schedule_daily_summary p s now = s"
proof -
  have "datetime_le (combine now t) now = None"
    using datetime_le_naive_clock [OF assms(3), of t] assms(2) by simp
  then show ?thesis
    using daily_incomparable [of p s t now] assms(1) by simp
qed

lemma daily_fields [simp]:
  "settings (schedule_daily_summary p s now) = settings s"
  "is_modal_notifier (schedule_daily_summary p s now) = is_modal_notifier s"
  "sched_is_running (schedule_daily_summary p s now) = sched_is_running s"
  "calls (schedule_daily_summary p s now) = calls s"
  using daily_cases [of p s now] by auto

lemma daily_threads_other:
  "k \<noteq> DailySummary \<Longrightarrow>
   filter (\<lambda>tm. callback tm = k) (threads (schedule_daily_summary p s now))
     = filter (\<lambda>tm. callback tm = k) (threads s)"
  using daily_cases [of p s now] by auto

lemma daily_timers_other:
  "k \<noteq> DailySummary \<Longrightarrow>
   map_of (timers (schedule_daily_summary p s now)) k = map_of (timers s) k"
  using daily_cases [of p s now] by (auto simp: update_conv')

lemma daily_length: "length (threads s) \<le> length (threads (schedule_daily_summary p s now))"
  using daily_cases [of p s now] by auto


lemma weekday_tuesday: "weekday (at_time 2024 1 2 h mi) = 1"
  by (simp add: weekday_def toordinal_def at_time_def days_before_year_def
      days_before_month_def days_in_month_def is_leap_def)

lemma hhmm_0900: "hhmm ''09:00'' = Some \<lparr>hour = 9, minute = 0, second = 0, microsecond = 0, utcoffset = None\<rparr>"
  by (simp add: hhmm_def digit_of_def)

lemma hhmm_1700: "hhmm ''17:00'' = Some \<lparr>hour = 17, minute = 0, second = 0, microsecond = 0, utcoffset = None\<rparr>"
  by (simp add: hhmm_def digit_of_def)

lemma hhmm_1800: "hhmm ''18:00'' = Some \<lparr>hour = 18, minute = 0, second = 0, microsecond = 0, utcoffset = None\<rparr>"
  by (simp add: hhmm_def digit_of_def)

lemma hhmm_bogus: "hhmm ''bogus'' = None"
  by (simp add: hhmm_def digit_of_def)

lemma reschedule_arm: "k \<noteq> DailySummary \<Longrightarrow> \<exists>v. reschedule k s = arm k v s"
  by (cases k) (auto simp add: schedule_break_reminder_def schedule_hydration_reminder_def
      schedule_inspiration_reminder_def schedule_eye_strain_reminder_def
      schedule_posture_reminder_def schedule_mood_checkin_def)

lemma calls_reschedule [simp]: "calls (reschedule k s) = calls s"
  by (cases k) (simp_all add: schedule_break_reminder_def schedule_hydration_reminder_def
      schedule_inspiration_reminder_def schedule_eye_strain_reminder_def
      schedule_posture_reminder_def schedule_mood_checkin_def)

lemma length_cancel_timers [simp]: "length (cancel_timers al ths) = length ths"
  by (induction al arbitrary: ths) auto

lemma status_cancel_timers:
  "tid < length ths \<Longrightarrow>
   status (cancel_timers al ths ! tid) =
     (if tid \<in> snd ` set al \<and> status (ths ! tid) = Waiting then Cancelled
      else status (ths ! tid))"
proof (induction al arbitrary: ths)
  case Nil
  then show ?case by simp
next
  case (Cons a al)
  obtain name t where a: "a = (name, t)" by (cases a)
  show ?case
    using Cons.prems
    by (auto simp add: a Cons.IH is_alive_def cancel_def nth_list_update)
qed

lemma in_flight_cancel_timers:
  "tid < length ths \<Longrightarrow> status (ths ! tid) = InFlight \<Longrightarrow>
   cancel_timers al ths ! tid = ths ! tid"
proof (induction al arbitrary: ths)
  case Nil
  then show ?case by simp
next
  case (Cons a al)
  obtain name t where a: "a = (name, t)" by (cases a)
  show ?case
    using Cons.prems
    by (auto simp add: a Cons.IH is_alive_def cancel_def nth_list_update)
qed

lemma finish_callback_rearms:
  assumes "tid < length (threads s)" and "status (threads s ! tid) = InFlight"
    and "callback (threads s ! tid) \<noteq> DailySummary"
  shows "pending (callback (threads s ! tid)) (finish_callback p tid now db_raises False s) \<noteq> []"
proof -
  let ?k = "callback (threads s ! tid)"
  define s0 where "s0 = (if should_send_reminder p (settings s) now
     then s\<lparr>calls := calls s @ [present ?k (is_modal_notifier s)]\<rparr> else s)"
  have th0: "threads s0 = threads s"
    by (simp add: s0_def)
  obtain v where v: "reschedule ?k s0 = arm ?k v s0"
    using reschedule_arm [OF assms(3)] by blast
  have "send_reminder p ?k s now False = Returned (reschedule ?k s0)"
    by (simp add: send_reminder_def Let_def s0_def)
  then have run: "state_of (run_callback p ?k s now db_raises False) = arm ?k v s0"
    using assms(3) v by (simp add: run_callback_def)
  have "threads (finish_callback p tid now db_raises False s) =
      (threads s @ [\<lparr>callback = ?k, interval = v, status = Waiting\<rparr>])
        [tid := (threads s ! tid)\<lparr>status := Finished\<rparr>]"
    using assms(1,2) by (simp add: finish_callback_def Let_def run th0 nth_append)
  then have "\<lparr>callback = ?k, interval = v, status = Waiting\<rparr>
      \<in> set (threads (finish_callback p tid now db_raises False s))"
    using assms(1) by (simp add: list_update_append)
  then show ?thesis
    by (force simp add: pending_def filter_empty_conv)
qed

lemma started_eq:
  "started =
     \<lparr>settings = default_settings, is_modal_notifier = False,
      timers = [(Break, 0), (Hydration, 1), (Inspiration, 2), (DailySummary, 3)],
      sched_is_running = True, sched_start_time = Some (at_time 2024 1 2 9 0),
      threads =
        [\<lparr>callback = Break, interval = 2700, status = Waiting\<rparr>,
         \<lparr>callback = Hydration, interval = 7200, status = Waiting\<rparr>,
         \<lparr>callback = Inspiration, interval = 10800, status = Waiting\<rparr>,
         \<lparr>callback = DailySummary, interval = 28800, status = Waiting\<rparr>],
      calls = []\<rparr>"
proof -
  have t: "hhmm (get_or (daily_summary_time default_settings) ''17:00'')
      = Some \<lparr>hour = 17, minute = 0, second = 0, microsecond = 0, utcoffset = None\<rparr>"
    by (simp add: default_settings_def get_or_def hhmm_1700)
  have secs: "seconds_between
      (combine (at_time 2024 1 2 9 0) \<lparr>hour = 17, minute = 0, second = 0, microsecond = 0, utcoffset = None\<rparr>)
      (at_time 2024 1 2 9 0) = 28800"
    by (simp add: seconds_between_def utc_micros_def combine_def at_time_def toordinal_def
        micros_of_def)
  have later: "datetime_le
      (combine (at_time 2024 1 2 9 0) \<lparr>hour = 17, minute = 0, second = 0, microsecond = 0, utcoffset = None\<rparr>)
      (at_time 2024 1 2 9 0) = Some False"
    by (simp add: datetime_le_def naive_datetime_le_def combine_def at_time_def naive_le_def)
  have iv: "get_or (break_interval default_settings) 45 = 45"
    "get_or (hydration_interval default_settings) 120 = 120"
    "get_or (inspiration_interval default_settings) 180 = 180"
    by (simp_all add: default_settings_def get_or_def)
  show ?thesis
    by (simp add: started_def init_scheduler_def
        start_all_reminders_def Let_def schedule_break_reminder_def
        schedule_hydration_reminder_def schedule_inspiration_reminder_def
        schedule_daily_summary_def arm_def t secs later iv)
qed

lemma run_started:
  "run_scheduler hhmm (init_scheduler default_settings False)
     (StartAll (at_time 2024 1 2 9 0) # evs) = run_scheduler hhmm started evs"
  by (simp add: run_scheduler_def started_def)

lemma eligible_0945:
  "should_send_reminder hhmm default_settings (at_time 2024 1 2 9 45)"
  by (simp add: should_send_reminder_def is_work_day_def is_work_hours_def weekday_tuesday)
     (simp add: default_settings_def get_or_def hhmm_0900 hhmm_1800 at_time_def time_le_def naive_le_def)

lemma eligible_1030:
  "should_send_reminder hhmm default_settings (at_time 2024 1 2 10 30)"
  by (simp add: should_send_reminder_def is_work_day_def is_work_hours_def weekday_tuesday)
     (simp add: default_settings_def get_or_def hhmm_0900 hhmm_1800 at_time_def time_le_def naive_le_def)

lemma break_45: "get_or (break_interval default_settings) 45 = 45"
  by (simp add: default_settings_def get_or_def)

subsection \<open>Firing and re-arming\<close>

text \<open>
  C3 at an input where the code breaks it. The scheduler is started on Tuesday 2 January
  2024 at 9:00 with the default settings; at 9:45 the break timer fires, the firing is
  eligible and the notifier is called. When that call raises, the exception leaves
  \<^verbatim>\<open>send_reminder\<close> before \<^verbatim>\<open>self.schedule_break_reminder()\<close>: no break timer is waiting any
  more. When the call returns, exactly one is.
\<close>

theorem raising_notifier_ends_break_reminders:
  "calls (run_scheduler hhmm (init_scheduler default_settings False)
      [StartAll (at_time 2024 1 2 9 0), Elapse 0,
       Complete 0 (at_time 2024 1 2 9 45) False True]) = [SendBreakReminder] \<and>
   pending Break (run_scheduler hhmm (init_scheduler default_settings False)
      [StartAll (at_time 2024 1 2 9 0), Elapse 0,
       Complete 0 (at_time 2024 1 2 9 45) False True]) = [] \<and>
   pending Break (run_scheduler hhmm (init_scheduler default_settings False)
      [StartAll (at_time 2024 1 2 9 0), Elapse 0,
       Complete 0 (at_time 2024 1 2 9 45) False False])
     = [\<lparr>callback = Break, interval = 2700, status = Waiting\<rparr>]"
  unfolding run_started
  by (simp add: run_scheduler_def started_eq elapse_def finish_callback_def run_callback_def
      send_reminder_def eligible_0945 schedule_break_reminder_def arm_def break_45 pending_def)

text \<open>
  C4 at an input where the code breaks it. The break callback is in flight when
  \<^verbatim>\<open>stop_all_reminders\<close> runs and returns; the callback then completes and, without looking
  at \<^verbatim>\<open>is_running\<close>, re-arms: timer 4 waits for the break reminder although the scheduler
  is stopped. It fires 45 minutes later and presents a second break reminder.
\<close>

theorem in_flight_callback_rearms_after_stop:
  "\<not> sched_is_running (run_scheduler hhmm (init_scheduler default_settings False)
      [StartAll (at_time 2024 1 2 9 0), Elapse 0, StopAll,
       Complete 0 (at_time 2024 1 2 9 45) False False]) \<and>
   pending Break (run_scheduler hhmm (init_scheduler default_settings False)
      [StartAll (at_time 2024 1 2 9 0), Elapse 0, StopAll,
       Complete 0 (at_time 2024 1 2 9 45) False False])
     = [\<lparr>callback = Break, interval = 2700, status = Waiting\<rparr>] \<and>
   calls (run_scheduler hhmm (init_scheduler default_settings False)
      [StartAll (at_time 2024 1 2 9 0), Elapse 0, StopAll,
       Complete 0 (at_time 2024 1 2 9 45) False False,
       Elapse 4, Complete 4 (at_time 2024 1 2 10 30) False False])
     = [SendBreakReminder, SendBreakReminder]"
  unfolding run_started
  by (simp add: run_scheduler_def started_eq elapse_def finish_callback_def run_callback_def
      send_reminder_def eligible_0945 eligible_1030 schedule_break_reminder_def arm_def
      break_45 pending_def stop_all_reminders_def is_alive_def cancel_def)

text \<open>
  What \<^verbatim>\<open>stop_all_reminders\<close> does achieve when the scheduler was running: the scheduler
  is no longer running, \<^verbatim>\<open>self.timers\<close> is empty, every timer of \<^verbatim>\<open>self.timers\<close> that was
  still waiting is cancelled and the status of every other timer is as it was, and no timer
  of \<^verbatim>\<open>self.timers\<close> begins a firing afterwards. But a callback of an interval reminder that
  is already in flight completes its firing and then re-arms its kind, whatever the running
  flag says.
\<close>

lemma stop_all_cancels_waiting_timers:
  assumes "sched_is_running s"
  shows "\<not> sched_is_running (stop_all_reminders s) \<and>
         timers (stop_all_reminders s) = [] \<and>
         (\<forall>tid < length (threads s).
            status (threads (stop_all_reminders s) ! tid) =
              (if tid \<in> snd ` set (timers s) \<and> status (threads s ! tid) = Waiting
               then Cancelled else status (threads s ! tid))) \<and>
         (\<forall>tid \<in> snd ` set (timers s).
            elapse tid (stop_all_reminders s) = stop_all_reminders s) \<and>
         (\<forall>tid p now db_raises.
            tid < length (threads s) \<and> status (threads s ! tid) = InFlight \<and>
            callback (threads s ! tid) \<noteq> DailySummary \<longrightarrow>
            pending (callback (threads s ! tid))
              (finish_callback p tid now db_raises False (stop_all_reminders s)) \<noteq> [])"
proof -
  let ?s' = "stop_all_reminders s"
  have th: "threads ?s' = cancel_timers (timers s) (threads s)"
    using assms by (simp add: stop_all_reminders_def)
  have 1: "\<not> sched_is_running ?s'" "timers ?s' = []"
    using assms by (simp_all add: stop_all_reminders_def)
  have 2: "status (threads ?s' ! tid) =
      (if tid \<in> snd ` set (timers s) \<and> status (threads s ! tid) = Waiting
       then Cancelled else status (threads s ! tid))" if "tid < length (threads s)" for tid
    using that by (simp add: th status_cancel_timers)
  have 3: "elapse tid ?s' = ?s'" if "tid \<in> snd ` set (timers s)" for tid
  proof (cases "tid < length (threads s)")
    case True
    then have "status (threads ?s' ! tid) \<noteq> Waiting"
      using 2 [OF True] that by simp
    then show ?thesis by (simp add: elapse_def)
  next
    case False
    then show ?thesis by (simp add: elapse_def th)
  qed
  have 4: "pending (callback (threads s ! tid)) (finish_callback p tid now db_raises False ?s') \<noteq> []"
    if "tid < length (threads s)" "status (threads s ! tid) = InFlight"
       "callback (threads s ! tid) \<noteq> DailySummary" for tid p now db_raises
  proof -
    have same: "threads ?s' ! tid = threads s ! tid"
      using that(1,2) by (simp add: th in_flight_cancel_timers)
    show ?thesis
      using finish_callback_rearms [of tid ?s' p now db_raises] that same by (simp add: th)
  qed
  from 1 2 3 4 show ?thesis by blast
qed

lemma stop_all_cancels_waiting_timers_example:
  "sched_is_running (elapse 0 started) \<and>
   status (threads (stop_all_reminders (elapse 0 started)) ! 1) = Cancelled \<and>
   elapse 1 (stop_all_reminders (elapse 0 started)) = stop_all_reminders (elapse 0 started) \<and>
   pending Break (finish_callback hhmm 0 (at_time 2024 1 2 9 45) False False
      (stop_all_reminders (elapse 0 started))) \<noteq> []"
proof -
  let ?s = "elapse 0 started"
  have s: "?s = started\<lparr>threads := (threads started)[0 := \<lparr>callback = Break, interval = 2700, status = InFlight\<rparr>]\<rparr>"
    by (simp add: elapse_def started_eq)
  have run: "sched_is_running ?s"
    by (simp add: s) (simp add: started_eq)
  have facts: "1 < length (threads ?s)" "1 \<in> snd ` set (timers ?s)"
    "status (threads ?s ! 1) = Waiting" "0 < length (threads ?s)"
    "status (threads ?s ! 0) = InFlight" "callback (threads ?s ! 0) = Break"
    by (simp_all add: s) (simp_all add: started_eq)
  note r = stop_all_cancels_waiting_timers [OF run]
  from r facts(1,2,3) have a: "status (threads (stop_all_reminders ?s) ! 1) = Cancelled"
    by presburger
  from r facts(2) have b: "elapse 1 (stop_all_reminders ?s) = stop_all_reminders ?s"
    by blast
  from r facts(4,5,6) have c: "pending Break (finish_callback hhmm 0 (at_time 2024 1 2 9 45) False False
      (stop_all_reminders ?s)) \<noteq> []"
    by (metis kind.distinct(5))
  from run a b c show ?thesis by blast
qed

subsection \<open>The daily summary\<close>

lemma schedule_daily_summary_month_end:
  assumes "p (get_or (daily_summary_time (settings s)) ''17:00'') = Some t"
    and "datetime_le (combine now t) now = Some True"
    and "day now = days_in_month (year now) (month now)"
  shows "schedule_daily_summary p s now = s"
  using assms by (simp add: schedule_daily_summary_def Let_def replace_day_def combine_def)

text \<open>
  C5 at an input where the code breaks it. On 31 January 2024 at 18:00, with the summary
  time 17:00, the time has passed, \<^verbatim>\<open>replace(day=32)\<close> raises \<^verbatim>\<open>ValueError\<close>, the
  \<^verbatim>\<open>except\<close> swallows it, and no timer is armed for the daily summary: neither by
  \<^verbatim>\<open>schedule_daily_summary\<close> itself nor by \<^verbatim>\<open>start_all_reminders\<close>.
\<close>

theorem daily_summary_not_armed_on_last_day:
  "schedule_daily_summary hhmm (init_scheduler default_settings False) (at_time 2024 1 31 18 0)
     = init_scheduler default_settings False \<and>
   timers (start_all_reminders hhmm (init_scheduler default_settings False)
             (at_time 2024 1 31 18 0))
     = [(Break, 0), (Hydration, 1), (Inspiration, 2)] \<and>
   pending DailySummary (start_all_reminders hhmm (init_scheduler default_settings False)
             (at_time 2024 1 31 18 0)) = []"
proof -
  let ?s = "init_scheduler default_settings False"
  let ?now = "at_time 2024 1 31 18 0"
  have t: "hhmm (get_or (daily_summary_time (settings s)) ''17:00'')
      = Some \<lparr>hour = 17, minute = 0, second = 0, microsecond = 0, utcoffset = None\<rparr>"
    if "settings s = default_settings" for s :: scheduler
    using that by (simp add: default_settings_def get_or_def hhmm_1700)
  have passed: "datetime_le (combine ?now \<lparr>hour = 17, minute = 0, second = 0, microsecond = 0, utcoffset = None\<rparr>) ?now
      = Some True"
    by (simp add: datetime_le_def naive_datetime_le_def combine_def at_time_def naive_le_def)
  have last: "day ?now = days_in_month (year ?now) (month ?now)"
    by (simp add: at_time_def days_in_month_def)
  have same: "schedule_daily_summary hhmm s ?now = s" if "settings s = default_settings"
    for s :: scheduler
    using schedule_daily_summary_month_end
      [where p = hhmm and s = s and now = "?now", OF t [OF that] passed last] .
  have 1: "schedule_daily_summary hhmm ?s ?now = ?s"
    by (rule same) (simp add: init_scheduler_def)
  have 2: "start_all_reminders hhmm ?s ?now =
     schedule_inspiration_reminder (schedule_hydration_reminder (schedule_break_reminder
       (?s\<lparr>sched_is_running := True, sched_start_time := Some ?now\<rparr>)))"
    by (simp add: start_all_reminders_def Let_def same init_scheduler_def
        schedule_break_reminder_def schedule_hydration_reminder_def
        schedule_inspiration_reminder_def)
  show ?thesis
    unfolding 2 using 1
    by (simp add: init_scheduler_def schedule_break_reminder_def
        schedule_hydration_reminder_def schedule_inspiration_reminder_def arm_def pending_def)
qed

subsection \<open>Eligibility\<close>


text \<open>
  A bound that carries a UTC offset cannot be compared with the time of the naive clock:
  the \<^verbatim>\<open>TypeError\<close> is caught like the \<^verbatim>\<open>ValueError\<close> of a malformed string, and the
  work-hours test is true at any hour.
\<close>

lemma aware_start_time_allows_reminders:
  assumes "p (get_or (work_start_time st) ''09:00'') = Some work_start"
    and "utcoffset work_start \<noteq> None" and "utcoffset (tod now) = None"
  shows "is_work_hours p st now"
  using assms
  by (auto simp add: is_work_hours_def Let_def time_le_def split: option.splits bool.splits)




text \<open>
  C8, amended: for every eligibility evaluation in which \<^verbatim>\<open>work_start_time\<close> or
  \<^verbatim>\<open>work_end_time\<close> is a malformed string, the evaluation does not crash: \<^verbatim>\<open>is_work_hours\<close>
  returns true (``default to allowing reminders''), whatever the current time and the other
  bound are, so that eligibility is decided by \<^verbatim>\<open>notifications_enabled\<close> and the work-day
  test alone.
\<close>

theorem malformed_time_allows_reminders:
  assumes "p (get_or (work_start_time st) ''09:00'') = None \<or>
           p (get_or (work_end_time st) ''18:00'') = None"
  shows "is_work_hours p st now \<and>
         should_send_reminder p st now
           = (get_or (notifications_enabled st) True \<and> is_work_day st now)"
proof -
  have "is_work_hours p st now"
    using assms by (auto simp add: is_work_hours_def split: option.splits)
  then show ?thesis
    by (auto simp add: should_send_reminder_def)
qed

theorem malformed_time_allows_reminders_witness:
  "hhmm (get_or (work_start_time (default_settings\<lparr>work_start_time := Some ''bogus''\<rparr>)) ''09:00'')
     = None \<and>
   is_work_hours hhmm (default_settings\<lparr>work_start_time := Some ''bogus''\<rparr>)
     (at_time 2024 1 2 20 0)"
proof -
  have bad: "hhmm (get_or (work_start_time (default_settings\<lparr>work_start_time := Some ''bogus''\<rparr>))
      ''09:00'') = None"
    by (simp add: get_or_def hhmm_bogus)
  show ?thesis
    using malformed_time_allows_reminders
      [of hhmm "default_settings\<lparr>work_start_time := Some ''bogus''\<rparr>" "at_time 2024 1 2 20 0"]
      bad
    by blast
qed

text \<open>
  C8, as stated, fails: with \<^verbatim>\<open>work_start_time\<close> set to the malformed \<open>''bogus''\<close> and
  \<^verbatim>\<open>work_end_time\<close> 18:00, \<^verbatim>\<open>is_work_hours\<close> at 20:00 is true, whereas with the default
  start 09:00 in its place it is false.
\<close>

theorem malformed_start_time_is_not_default:
  "hhmm ''bogus'' = None \<and>
   is_work_hours hhmm (default_settings\<lparr>work_start_time := Some ''bogus''\<rparr>)
     (at_time 2024 1 2 20 0) \<and>
   \<not> is_work_hours hhmm (default_settings\<lparr>work_start_time := Some ''09:00''\<rparr>)
     (at_time 2024 1 2 20 0)"
  by (simp add: hhmm_bogus is_work_hours_def get_or_def default_settings_def hhmm_0900
      hhmm_1800 at_time_def time_le_def naive_le_def)

subsection \<open>Starting the scheduler\<close>

text \<open>
  C9, as stated, fails: with a notifier that has no \<^verbatim>\<open>show_modal_notification\<close>,
  \<^verbatim>\<open>start_all_reminders\<close> arms four timers only; no timer waits for the eye-strain, the
  posture or the mood reminder.
\<close>

theorem start_all_skips_wellness_without_modal:
  "timers (start_all_reminders hhmm (init_scheduler default_settings False)
             (at_time 2024 1 2 9 0))
     = [(Break, 0), (Hydration, 1), (Inspiration, 2), (DailySummary, 3)] \<and>
   pending EyeStrain (start_all_reminders hhmm (init_scheduler default_settings False)
             (at_time 2024 1 2 9 0)) = [] \<and>
   pending Posture (start_all_reminders hhmm (init_scheduler default_settings False)
             (at_time 2024 1 2 9 0)) = [] \<and>
   pending MoodCheckin (start_all_reminders hhmm (init_scheduler default_settings False)
             (at_time 2024 1 2 9 0)) = []"
  unfolding started_def [symmetric]
  by (simp add: started_eq pending_def)

text \<open>
  C9, amended: \<^verbatim>\<open>start_all_reminders\<close> changes nothing while the scheduler is running.
  Otherwise it sets the running flag and arms exactly one timer for each of break,
  hydration and inspiration, waiting for the configured interval (minutes times 60), and,
  only if the notifier is a modal one, one each for eye strain (20 minutes), posture
  (60 minutes) and mood check-in (4 hours); with any other notifier the timers of these
  three kinds are left as they were. For the daily summary it arms one timer only if
  \<^verbatim>\<open>daily_summary_time\<close> parses and the parsed time can be compared with the clock: the
  timer then waits until that time of day, today if it has not yet passed, else on the next
  day when the month has one. If the string is malformed, or carries a UTC offset (the
  comparison with the naive clock raises \<^verbatim>\<open>TypeError\<close>, here \<open>datetime_le\<close> is \<open>None\<close>), the
  timers of the daily summary are left as they were, and the scheduler is running all the
  same.
\<close>

theorem start_all_arms_by_notifier:
  "(sched_is_running s \<longrightarrow> start_all_reminders p s now = s) \<and>
   (\<not> sched_is_running s \<longrightarrow>
     (let s' = start_all_reminders p s now;
          untouched = (\<lambda>k. filter (\<lambda>tm. callback tm = k) (threads s')
                              = filter (\<lambda>tm. callback tm = k) (threads s) \<and>
                            map_of (timers s') k = map_of (timers s) k)
      in
        sched_is_running s' \<and>
        armed Break (of_int (get_or (break_interval (settings s)) 45 * 60)) s s' \<and>
        armed Hydration (of_int (get_or (hydration_interval (settings s)) 120 * 60)) s s' \<and>
        armed Inspiration (of_int (get_or (inspiration_interval (settings s)) 180 * 60)) s s' \<and>
        (case p (get_or (daily_summary_time (settings s)) ''17:00'') of
           None \<Rightarrow> untouched DailySummary
         | Some t \<Rightarrow>
             (case datetime_le (combine now t) now of
                None \<Rightarrow> untouched DailySummary
              | Some False \<Rightarrow>
                  armed DailySummary (seconds_between (combine now t) now) s s'
              | Some True \<Rightarrow>
                  (0 \<le> day now \<and> day now + 1 \<le> days_in_month (year now) (month now) \<longrightarrow>
                     armed DailySummary
                       (seconds_between ((combine now t)\<lparr>day := day now + 1\<rparr>) now) s s'))) \<and>
        (if is_modal_notifier s
         then armed EyeStrain (20 * 60) s s' \<and> armed Posture (60 * 60) s s' \<and>
              armed MoodCheckin (4 * 60 * 60) s s'
         else (\<forall>k \<in> {EyeStrain, Posture, MoodCheckin}. untouched k))))"
proof (intro conjI impI)
  assume "sched_is_running s"
  then show "start_all_reminders p s now = s"
    by (simp add: start_all_reminders_def)
next
  assume idle: "\<not> sched_is_running s"
  define s1 where "s1 = s\<lparr>sched_is_running := True, sched_start_time := Some now\<rparr>"
  define s2 where "s2 = schedule_break_reminder s1"
  define s3 where "s3 = schedule_hydration_reminder s2"
  define s4 where "s4 = schedule_inspiration_reminder s3"
  define s5 where "s5 = schedule_daily_summary p s4 now"
  define s' where "s' = start_all_reminders p s now"
  define untouched where "untouched = (\<lambda>k. filter (\<lambda>tm. callback tm = k) (threads s')
                              = filter (\<lambda>tm. callback tm = k) (threads s) \<and>
                            map_of (timers s') k = map_of (timers s) k)"
  note sch = schedule_break_reminder_def schedule_hydration_reminder_def
    schedule_inspiration_reminder_def schedule_eye_strain_reminder_def
    schedule_posture_reminder_def schedule_mood_checkin_def
  have s'_eq: "s' = (if is_modal_notifier s
      then schedule_mood_checkin (schedule_posture_reminder (schedule_eye_strain_reminder s5))
      else s5)"
    using idle by (simp add: s'_def start_all_reminders_def Let_def s5_def s4_def s3_def s2_def s1_def sch)
  have st: "settings s4 = settings s" "settings s1 = settings s"
    by (simp_all add: s4_def s3_def s2_def s1_def sch)
  have b2: "armed Break (of_int (get_or (break_interval (settings s)) 45 * 60)) s s2"
    unfolding s2_def schedule_break_reminder_def st
    using armed_arm [of s1 s1 Break "of_int (get_or (break_interval (settings s)) 45 * 60)"]
    by (simp add: s1_def armed_refl_fields)
  have b4: "armed Break (of_int (get_or (break_interval (settings s)) 45 * 60)) s s4"
    using b2 by (simp add: s4_def s3_def sch armed_arm_other)
  have h3: "armed Hydration (of_int (get_or (hydration_interval (settings s)) 120 * 60)) s s3"
    unfolding s3_def schedule_hydration_reminder_def
    using armed_arm [of s s2 Hydration] by (simp add: s2_def s1_def sch)
  have h4: "armed Hydration (of_int (get_or (hydration_interval (settings s)) 120 * 60)) s s4"
    using h3 by (simp add: s4_def sch armed_arm_other)
  have i4: "armed Inspiration (of_int (get_or (inspiration_interval (settings s)) 180 * 60)) s s4"
    unfolding s4_def schedule_inspiration_reminder_def
    using armed_arm [of s s3 Inspiration] by (simp add: s3_def s2_def s1_def sch)
  have keep: "armed k v s s'" if "armed k v s s5" and "k \<notin> {EyeStrain, Posture, MoodCheckin}" for k v
    using that by (auto simp add: s'_eq sch intro!: armed_arm_other)
  have keep5: "armed k v s s'" if "armed k v s s4" and "k \<notin> {EyeStrain, Posture, MoodCheckin, DailySummary}" for k v
    using that keep [of k v] armed_daily [of k v s s4 p now] by (simp add: s5_def)
  have len4: "length (threads s) \<le> length (threads s4)"
    by (simp add: s4_def s3_def s2_def s1_def sch)
  have fil4: "filter (\<lambda>tm. callback tm = k) (threads s4) = filter (\<lambda>tm. callback tm = k) (threads s)"
    if "k \<notin> {Break, Hydration, Inspiration}" for k
    using that by (auto simp add: s4_def s3_def s2_def s1_def sch)
  have tim4: "map_of (timers s4) k = map_of (timers s) k"
    if "k \<notin> {Break, Hydration, Inspiration}" for k
    using that by (auto simp add: s4_def s3_def s2_def s1_def sch update_conv')
  have run: "sched_is_running s'"
    by (simp add: s'_eq s5_def s4_def s3_def s2_def s1_def sch)
  have daily: "armed DailySummary v s s'" if "s5 = arm DailySummary v s4" for v
  proof -
    have "armed DailySummary v s s5"
      unfolding that using armed_arm [of s s4 DailySummary v] len4 fil4 [of DailySummary] by simp
    then show ?thesis using keep by simp
  qed
  have nodaily: "untouched DailySummary" if "s5 = s4"
    unfolding untouched_def
    using that fil4 [of DailySummary] tim4 [of DailySummary]
    by (auto simp add: s'_eq sch update_conv')
  have d0: "untouched DailySummary"
    if "p (get_or (daily_summary_time (settings s)) ''17:00'') = None"
    using that nodaily daily_unparsed [of p s4 now] by (simp add: s5_def st)
  have dN: "untouched DailySummary"
    if "p (get_or (daily_summary_time (settings s)) ''17:00'') = Some t"
       "datetime_le (combine now t) now = None" for t
    using that nodaily daily_incomparable [of p s4 t now] by (simp add: s5_def st)
  have d1: "armed DailySummary (seconds_between (combine now t) now) s s'"
    if "p (get_or (daily_summary_time (settings s)) ''17:00'') = Some t"
       "datetime_le (combine now t) now = Some False" for t
    using that daily daily_today [of p s4 t now] by (simp add: s5_def st)
  have d2: "armed DailySummary (seconds_between ((combine now t)\<lparr>day := day now + 1\<rparr>) now) s s'"
    if "p (get_or (daily_summary_time (settings s)) ''17:00'') = Some t"
       "datetime_le (combine now t) now = Some True" "0 \<le> day now"
       "day now + 1 \<le> days_in_month (year now) (month now)" for t
    using that daily daily_tomorrow [of p s4 t now] by (simp add: s5_def st)
  have dcase: "case p (get_or (daily_summary_time (settings s)) ''17:00'') of
           None \<Rightarrow> untouched DailySummary
         | Some t \<Rightarrow>
             (case datetime_le (combine now t) now of
                None \<Rightarrow> untouched DailySummary
              | Some False \<Rightarrow>
                  armed DailySummary (seconds_between (combine now t) now) s s'
              | Some True \<Rightarrow>
                  (0 \<le> day now \<and> day now + 1 \<le> days_in_month (year now) (month now) \<longrightarrow>
                     armed DailySummary
                       (seconds_between ((combine now t)\<lparr>day := day now + 1\<rparr>) now) s s'))"
    using d0 dN d1 d2 by (simp split: option.split bool.split)
  have len5: "length (threads s) \<le> length (threads s5)"
    using len4 daily_length [of s4 p now] by (simp add: s5_def)
  have fil5: "filter (\<lambda>tm. callback tm = k) (threads s5) = filter (\<lambda>tm. callback tm = k) (threads s)"
    if "k \<in> {EyeStrain, Posture, MoodCheckin}" for k
    using that fil4 [of k] daily_threads_other [of k p s4 now] by (auto simp: s5_def)
  have tim5: "map_of (timers s5) k = map_of (timers s) k"
    if "k \<in> {EyeStrain, Posture, MoodCheckin}" for k
    using that tim4 [of k] daily_timers_other [of k p s4 now] by (auto simp: s5_def)
  have well: "armed EyeStrain (20 * 60) s s' \<and> armed Posture (60 * 60) s s' \<and>
              armed MoodCheckin (4 * 60 * 60) s s'" if modal: "is_modal_notifier s"
  proof -
    define e where "e = schedule_eye_strain_reminder s5"
    define q where "q = schedule_posture_reminder e"
    have s'q: "s' = schedule_mood_checkin q"
      using modal by (simp add: s'_eq q_def e_def)
    have "armed EyeStrain (20 * 60) s e"
      unfolding e_def schedule_eye_strain_reminder_def
      using armed_arm [of s s5 EyeStrain] len5 fil5 [of EyeStrain] by simp
    then have 1: "armed EyeStrain (20 * 60) s s'"
      by (simp add: s'q q_def sch armed_arm_other)
    have "armed Posture (60 * 60) s q"
      unfolding q_def schedule_posture_reminder_def
      using armed_arm [of s e Posture] len5 fil5 [of Posture] by (simp add: e_def sch)
    then have 2: "armed Posture (60 * 60) s s'"
      by (simp add: s'q sch armed_arm_other)
    have 3: "armed MoodCheckin (4 * 60 * 60) s s'"
      unfolding s'q schedule_mood_checkin_def
      using armed_arm [of s q MoodCheckin] len5 fil5 [of MoodCheckin] by (simp add: q_def e_def sch)
    from 1 2 3 show ?thesis by simp
  qed
  have nomodal: "\<forall>k \<in> {EyeStrain, Posture, MoodCheckin}. untouched k"
    if "\<not> is_modal_notifier s"
    unfolding untouched_def using that fil5 tim5 by (simp add: s'_eq)
  have wcase: "if is_modal_notifier s
         then armed EyeStrain (20 * 60) s s' \<and> armed Posture (60 * 60) s s' \<and>
              armed MoodCheckin (4 * 60 * 60) s s'
         else (\<forall>k \<in> {EyeStrain, Posture, MoodCheckin}. untouched k)"
    using well nomodal by simp
  show "let s' = start_all_reminders p s now;
          untouched = (\<lambda>k. filter (\<lambda>tm. callback tm = k) (threads s')
                              = filter (\<lambda>tm. callback tm = k) (threads s) \<and>
                            map_of (timers s') k = map_of (timers s) k)
      in
        sched_is_running s' \<and>
        armed Break (of_int (get_or (break_interval (settings s)) 45 * 60)) s s' \<and>
        armed Hydration (of_int (get_or (hydration_interval (settings s)) 120 * 60)) s s' \<and>
        armed Inspiration (of_int (get_or (inspiration_interval (settings s)) 180 * 60)) s s' \<and>
        (case p (get_or (daily_summary_time (settings s)) ''17:00'') of
           None \<Rightarrow> untouched DailySummary
         | Some t \<Rightarrow>
             (case datetime_le (combine now t) now of
                None \<Rightarrow> untouched DailySummary
              | Some False \<Rightarrow>
                  armed DailySummary (seconds_between (combine now t) now) s s'
              | Some True \<Rightarrow>
                  (0 \<le> day now \<and> day now + 1 \<le> days_in_month (year now) (month now) \<longrightarrow>
                     armed DailySummary
                       (seconds_between ((combine now t)\<lparr>day := day now + 1\<rparr>) now) s s'))) \<and>
        (if is_modal_notifier s
         then armed EyeStrain (20 * 60) s s' \<and> armed Posture (60 * 60) s s' \<and>
              armed MoodCheckin (4 * 60 * 60) s s'
         else (\<forall>k \<in> {EyeStrain, Posture, MoodCheckin}. untouched k))"
    unfolding Let_def s'_def [symmetric]
    using run keep5 [OF b4] keep5 [OF h4] keep5 [OF i4]
      dcase [unfolded untouched_def] wcase [unfolded untouched_def]
    by simp
qed

theorem start_all_arms_by_notifier_witness:
  "\<not> sched_is_running (init_scheduler default_settings True) \<and>
   armed Break 2700 (init_scheduler default_settings True)
     (start_all_reminders hhmm (init_scheduler default_settings True) (at_time 2024 1 2 9 0)) \<and>
   armed DailySummary 28800 (init_scheduler default_settings True)
     (start_all_reminders hhmm (init_scheduler default_settings True) (at_time 2024 1 2 9 0)) \<and>
   armed EyeStrain 1200 (init_scheduler default_settings True)
     (start_all_reminders hhmm (init_scheduler default_settings True) (at_time 2024 1 2 9 0)) \<and>
   map_of (timers (start_all_reminders hhmm
       (init_scheduler (default_settings\<lparr>daily_summary_time := Some ''bogus''\<rparr>) True)
       (at_time 2024 1 2 9 0))) DailySummary = None \<and>
   sched_is_running started \<and>
   start_all_reminders hhmm started (at_time 2024 1 2 9 30) = started"
proof -
  let ?s = "init_scheduler default_settings True"
  let ?b = "init_scheduler (default_settings\<lparr>daily_summary_time := Some ''bogus''\<rparr>) True"
  let ?now = "at_time 2024 1 2 9 0"
  let ?t = "\<lparr>hour = 17, minute = 0, second = 0, microsecond = 0, utcoffset = None\<rparr>"
  have idle: "\<not> sched_is_running ?s" and modal: "is_modal_notifier ?s"
    and iv: "get_or (break_interval (settings ?s)) 45 = 45"
    by (simp_all add: init_scheduler_def break_45)
  have t: "hhmm (get_or (daily_summary_time (settings ?s)) ''17:00'') = Some ?t"
    by (simp add: init_scheduler_def default_settings_def get_or_def hhmm_1700)
  have later: "datetime_le (combine ?now ?t) ?now = Some False"
    by (simp add: datetime_le_def naive_datetime_le_def combine_def at_time_def naive_le_def)
  have secs: "seconds_between (combine ?now ?t) ?now = 28800"
    by (simp add: seconds_between_def utc_micros_def combine_def at_time_def toordinal_def
        micros_of_def)
  have idle_b: "\<not> sched_is_running ?b" and none_b: "map_of (timers ?b) DailySummary = None"
    by (simp_all add: init_scheduler_def)
  have bogus: "hhmm (get_or (daily_summary_time (settings ?b)) ''17:00'') = None"
    by (simp add: init_scheduler_def get_or_def hhmm_bogus)
  have run: "sched_is_running started"
    by (simp add: started_eq)
  from start_all_arms_by_notifier [of ?s hhmm ?now] idle modal iv
  have a: "armed Break 2700 ?s (start_all_reminders hhmm ?s ?now) \<and>
           armed EyeStrain 1200 ?s (start_all_reminders hhmm ?s ?now)"
    by (simp add: Let_def)
  from start_all_arms_by_notifier [of ?s hhmm ?now] idle
  have "case hhmm (get_or (daily_summary_time (settings ?s)) ''17:00'') of
           None \<Rightarrow> True
         | Some t \<Rightarrow>
             (case datetime_le (combine ?now t) ?now of
                None \<Rightarrow> True
              | Some False \<Rightarrow>
                  armed DailySummary (seconds_between (combine ?now t) ?now) ?s
                    (start_all_reminders hhmm ?s ?now)
              | Some True \<Rightarrow> True)"
    by (simp add: Let_def split: option.splits bool.splits)
  then have d: "armed DailySummary 28800 ?s (start_all_reminders hhmm ?s ?now)"
    unfolding t by (simp add: later secs)
  from start_all_arms_by_notifier [of ?b hhmm ?now] idle_b
  have "case hhmm (get_or (daily_summary_time (settings ?b)) ''17:00'') of
           None \<Rightarrow> map_of (timers (start_all_reminders hhmm ?b ?now)) DailySummary
                     = map_of (timers ?b) DailySummary
         | Some t \<Rightarrow> True"
    by (simp add: Let_def split: option.splits bool.splits)
  then have c: "map_of (timers (start_all_reminders hhmm ?b ?now)) DailySummary = None"
    unfolding bogus by (simp add: none_b)
  from start_all_arms_by_notifier [of started hhmm "at_time 2024 1 2 9 30"] run
  have b: "start_all_reminders hhmm started (at_time 2024 1 2 9 30) = started"
    by blast
  from idle a d c run b show ?thesis by blast
qed

subsection \<open>Time utilities\<close>

text \<open>
  C10: for every nonnegative number of seconds \<open>n\<close>, \<open>seconds_to_hms n\<close> is a triple
  \<open>(hours, minutes, secs)\<close> with \<open>hours * 3600 + minutes * 60 + secs = n\<close>,
  \<open>0 \<le> minutes < 60\<close> and \<open>0 \<le> secs < 60\<close>.
\<close>

theorem seconds_to_hms_decomposes:
  assumes "0 \<le> n"
  shows "case seconds_to_hms n of (hours, minutes, secs) \<Rightarrow>
           hours * 3600 + minutes * 60 + secs = n
           \<and> 0 \<le> minutes \<and> minutes < 60 \<and> 0 \<le> secs \<and> secs < 60"
proof -
  have "(n mod 3600) mod 60 = n mod 60"
    by (simp add: mod_mod_cancel)
  then have "(n mod 3600) div 60 * 60 + n mod 60 = n mod 3600"
    by (metis div_mult_mod_eq)
  then have "n div 3600 * 3600 + (n mod 3600) div 60 * 60 + n mod 60 = n"
    using div_mult_mod_eq [of n 3600] by linarith
  moreover have "0 \<le> (n mod 3600) div 60" "(n mod 3600) div 60 < 60"
    by (simp_all add: div_less_iff_less_mult pos_imp_zdiv_nonneg_iff)
  moreover have "0 \<le> n mod 60" "n mod 60 < 60"
    by simp_all
  ultimately show ?thesis
    by (simp add: seconds_to_hms_def)
qed

theorem seconds_to_hms_decomposes_witness:
  "(0::int) \<le> 3725 \<and> seconds_to_hms 3725 = (1, 2, 5)
   \<and> (1::int) * 3600 + 2 * 60 + 5 = 3725"
  using seconds_to_hms_decomposes [of 3725]
  by (simp add: seconds_to_hms_def)

end
